theory Spec2Isabelle
  imports Complex_Main
begin

section \<open>Symbolic expressions\<close>

text \<open>
  The module \<open>rbf/basis.py\<close> works on symbolic expressions of the symbolic-algebra
  library. The symbols it uses are the two global symbols \<open>R\<close> and \<open>EPS\<close> and, for a
  derivative specification of length \<open>dim\<close>, the coordinate symbols \<open>x0 .. x(dim-1)\<close> and
  \<open>c0 .. c(dim-1)\<close> made by \<open>sympy.symbols('x:%s' % dim)\<close> and
  \<open>sympy.symbols('c:%s' % dim)\<close>.
\<close>

datatype sym = Sym_R | Sym_EPS | Sym_x nat | Sym_c nat

text \<open>
  Expression trees with the constructors the module itself applies (\<open>*\<close>, \<open>-\<close>,
  \<open>**\<close>, \<open>sum\<close>, \<open>sympy.sqrt\<close>, \<open>sympy.log\<close>, \<open>sympy.exp\<close>, \<open>/\<close>, \<open><\<close>,
  \<open>True\<close> and the two-branch \<open>sympy.Piecewise((e1, c1), (e2, c2))\<close>). Building a node
  is construction only: the automatic rewriting the library does on construction is part of
  the library, see \<open>engine\<close> below.
\<close>

datatype expr =
    Num real
  | Var sym
  | Add expr expr
  | Sub expr expr
  | Mul expr expr
  | Div expr expr
  | IntPow expr nat
  | Sqrt expr
  | Log expr
  | Exp expr
  | Lt expr expr
  | BTrue
  | Piecewise expr expr expr expr

section \<open>Numeric values and arrays\<close>

text \<open>
  A double is a finite value, an infinity or not-a-number. Rounding is not modelled: a
  finite value is a real number. \<open>isnan\<close> is \<open>np.isnan\<close> on one entry.
\<close>

datatype fl = Fin real | PInf | NInf | NaN

definition isnan :: "fl \<Rightarrow> bool" where
  "isnan v = (v = NaN)"

text \<open>
  A numpy array: its shape and its entries in row-major order. \<open>a.ndim\<close> is the length of
  the shape, and \<open>a.shape[i]\<close> raises IndexError when the shape tuple has no index \<open>i\<close>.
\<close>

record ndarray =
  shape :: "nat list"
  data :: "fl list"

datatype error =
  ValueError | IndexError | TypeError | KeyError | NotImplementedError | BackendError

definition ndim :: "ndarray \<Rightarrow> nat" where
  "ndim a = length (shape a)"

definition shape_at :: "ndarray \<Rightarrow> nat \<Rightarrow> error + nat" where
  "shape_at a i = (if i < length (shape a) then Inr (shape a ! i) else Inl IndexError)"

text \<open>\<open>np.ones(m, dtype=float)\<close> and \<open>arr = np.empty(shp); arr[...] = v\<close>.\<close>

definition ones :: "nat \<Rightarrow> ndarray" where
  "ones m = \<lparr>shape = [m], data = replicate m (Fin 1)\<rparr>"

definition full :: "nat list \<Rightarrow> fl \<Rightarrow> ndarray" where
  "full shp v = \<lparr>shape = shp, data = replicate (prod_list shp) v\<rparr>"

text \<open>
  What a compiled function returns: a bare scalar (for which \<open>np.isscalar\<close> holds) or an
  array.
\<close>

datatype raw = Scalar fl | Array ndarray

text \<open>
  \<open>_replace_nan(x)\<close>: \<open>x[np.isnan(x)] = 0.0; return x\<close>. Item assignment on a bare scalar
  raises TypeError.
\<close>

definition replace_nan :: "raw \<Rightarrow> error + raw" where
  "replace_nan x =
     (case x of
        Scalar v \<Rightarrow> Inl TypeError
      | Array a \<Rightarrow> Inr (Array (a\<lparr>data := map (\<lambda>v. if isnan v then Fin 0 else v) (data a)\<rparr>)))"

text \<open>
  A numeric callable takes the positional arguments and returns its value or raises; it may
  also emit warnings (divide by zero, invalid value), the second component.
\<close>

type_synonym callable = "ndarray list \<Rightarrow> (error + raw) \<times> string list"

text \<open>
  \<open>_check_lambdified_output(fin)\<close> returns \<open>fout\<close>: it calls \<open>fin\<close>, takes
  \<open>x = args[0]\<close> and \<open>eps = args[-1]\<close>, and when the output is a scalar it returns the
  array of shape \<open>(x.shape[0], eps.shape[0])\<close> filled with it.
\<close>

definition check_lambdified_output :: "callable \<Rightarrow> callable" where
  "check_lambdified_output fin = (\<lambda>args.
     case fin args of
       (Inl e, w) \<Rightarrow> (Inl e, w)
     | (Inr out, w) \<Rightarrow>
         (case args of
            [] \<Rightarrow> (Inl IndexError, w)
          | x # _ \<Rightarrow>
              (case out of
                 Array a \<Rightarrow> (Inr (Array a), w)
               | Scalar v \<Rightarrow>
                   (case shape_at x 0 of
                      Inl e \<Rightarrow> (Inl e, w)
                    | Inr n \<Rightarrow>
                        (case shape_at (last args) 0 of
                           Inl e \<Rightarrow> (Inl e, w)
                         | Inr m \<Rightarrow> (Inr (Array (full [n, m] v)), w))))))"

section \<open>The symbolic-algebra library\<close>

text \<open>
  The library is not part of the repository. Its operations that the module calls are the
  fields of an \<open>engine\<close>, and every theorem below that is stated for an arbitrary
  \<open>eng\<close> holds whatever the library does:
  \<^item> \<open>sym_has e s\<close> is \<open>e.has(s)\<close>;
  \<^item> \<open>sym_subs e s by\<close> is \<open>e.subs(s, by)\<close>;
  \<^item> \<open>sym_diff e vs\<close> is \<open>e.diff(*vs)\<close>, which may raise;
  \<^item> \<open>sym_limit e xi ci\<close> is \<open>e.limit(xi, ci)\<close>, which may raise;
  \<^item> \<open>lambdify args e\<close> is \<open>sympy.lambdify(args, e, 'numpy')\<close> and
    \<open>ufuncify args e\<close> is \<open>ufuncify(args, e)\<close>; each returns a numeric callable or raises.
\<close>

record engine =
  sym_has :: "expr \<Rightarrow> sym \<Rightarrow> bool"
  sym_subs :: "expr \<Rightarrow> sym \<Rightarrow> expr \<Rightarrow> expr"
  sym_diff :: "expr \<Rightarrow> sym list \<Rightarrow> error + expr"
  sym_limit :: "expr \<Rightarrow> sym \<Rightarrow> sym \<Rightarrow> error + expr"
  lambdify :: "sym list \<Rightarrow> expr \<Rightarrow> error + callable"
  ufuncify :: "sym list \<Rightarrow> expr \<Rightarrow> error + callable"

section \<open>The class RBF\<close>

text \<open>
  A derivative specification as passed by the caller: a tuple or a list of integers.
  \<open>tuple(diff)\<close> is \<open>PyTuple (elems diff)\<close>. The keys of the dictionary \<open>_cache\<close> are
  such values.
\<close>

datatype pyseq = PyTuple "int list" | PyList "int list"

fun elems :: "pyseq \<Rightarrow> int list" where
  "elems (PyTuple ds) = ds"
| "elems (PyList ds) = ds"

definition tuple :: "pyseq \<Rightarrow> pyseq" where
  "tuple d = PyTuple (elems d)"

record rbf =
  self_expr :: expr
  self_package :: string
  self_tol :: "real option"
  self_cache :: "pyseq \<rightharpoonup> callable"

text \<open>
  What the caller of a method can observe besides its value: a call of one of the two
  compilers with its arguments, a call of a compiled function, a warning that reaches the
  caller.
\<close>

datatype event =
    Compile string "sym list" expr
  | Invoke pyseq
  | Warning string

text \<open>
  A method call ends with a value or an exception, leaves the object in some state, and has
  produced a sequence of events.
\<close>

record 'a outcome =
  result :: "error + 'a"
  state :: rbf
  trace :: "event list"

definition set_tol :: "real option \<Rightarrow> rbf \<Rightarrow> rbf" where
  "set_tol tol self = self\<lparr>self_tol := tol\<rparr>"

definition set_package :: "string \<Rightarrow> rbf \<Rightarrow> error + rbf" where
  "set_package package self =
     (if package \<in> set [''cython'', ''numpy'']
      then Inr (self\<lparr>self_package := package\<rparr>)
      else Inl ValueError)"

definition clear_cache :: "rbf \<Rightarrow> rbf" where
  "clear_cache self = self\<lparr>self_cache := Map.empty\<rparr>"

text \<open>
  \<open>RBF.__init__(self, expr, package, tol)\<close>. The attributes are assigned one after the
  other; the record starts with placeholders for the three that the setters and
  \<open>clear_cache\<close> then assign.
\<close>

definition init :: "engine \<Rightarrow> expr \<Rightarrow> string \<Rightarrow> real option \<Rightarrow> error + rbf" where
  "init eng expr package tol =
     (if \<not> sym_has eng expr Sym_R then Inl ValueError
      else
        let expr' = (if \<not> sym_has eng expr Sym_EPS
                     then sym_subs eng expr Sym_R (Mul (Var Sym_EPS) (Var Sym_R))
                     else expr);
            self = \<lparr>self_expr = expr', self_package = [], self_tol = None,
                    self_cache = Map.empty\<rparr>
        in case set_package package self of
             Inl e \<Rightarrow> Inl e
           | Inr self' \<Rightarrow> Inr (clear_cache (set_tol tol self')))"

subsection \<open>add_to_cache\<close>

definition x_sym :: "nat \<Rightarrow> sym list" where
  "x_sym dim' = map Sym_x [0..<dim']"

definition c_sym :: "nat \<Rightarrow> sym list" where
  "c_sym dim' = map Sym_c [0..<dim']"

text \<open>
  \<open>sympy.sqrt(sum((xi-ci)**2 for xi,ci in zip(x_sym,c_sym)))\<close>; Python's \<open>sum\<close> starts
  from 0 and adds from the left.
\<close>

definition r_sym :: "nat \<Rightarrow> expr" where
  "r_sym dim' =
     Sqrt (foldl Add (Num 0)
             (map (\<lambda>(xi, ci). IntPow (Sub (Var xi) (Var ci)) 2) (zip (x_sym dim') (c_sym dim'))))"

text \<open>
  The loop \<open>for xi,order in zip(x_sym,diff)\<close>: an order 0 is skipped, any other order
  calls \<open>expr.diff(*(xi,)*order)\<close>. The tuple \<open>(xi,)*order\<close> has \<open>order\<close> entries, none
  when \<open>order\<close> is negative.
\<close>

fun diff_loop :: "engine \<Rightarrow> expr \<Rightarrow> (sym \<times> int) list \<Rightarrow> error + expr" where
  "diff_loop eng e [] = Inr e"
| "diff_loop eng e ((xi, order) # rest) =
     (if order = 0 then diff_loop eng e rest
      else case sym_diff eng e (replicate (nat order) xi) of
             Inl err \<Rightarrow> Inl err
           | Inr e' \<Rightarrow> diff_loop eng e' rest)"

text \<open>The loop \<open>for xi,ci in zip(x_sym,c_sym): center_expr = center_expr.limit(xi,ci)\<close>.\<close>

fun limit_loop :: "engine \<Rightarrow> expr \<Rightarrow> (sym \<times> sym) list \<Rightarrow> error + expr" where
  "limit_loop eng e [] = Inr e"
| "limit_loop eng e ((xi, ci) # rest) =
     (case sym_limit eng e xi ci of
        Inl err \<Rightarrow> Inl err
      | Inr e' \<Rightarrow> limit_loop eng e' rest)"

text \<open>
  The symbolic part of \<open>add_to_cache\<close>, up to the expression handed to the compiler.
\<close>

definition derive :: "engine \<Rightarrow> rbf \<Rightarrow> int list \<Rightarrow> error + expr" where
  "derive eng self ds =
     (let dim' = length ds;
          expr = sym_subs eng (self_expr self) Sym_R (r_sym dim')
      in case diff_loop eng expr (zip (x_sym dim') ds) of
           Inl err \<Rightarrow> Inl err
         | Inr expr' \<Rightarrow>
             (case self_tol self of
                None \<Rightarrow> Inr expr'
              | Some tol \<Rightarrow>
                  (case limit_loop eng expr' (zip (x_sym dim') (c_sym dim')) of
                     Inl err \<Rightarrow> Inl err
                   | Inr center_expr \<Rightarrow>
                       Inr (Piecewise center_expr (Lt (r_sym dim') (Num tol)) expr' BTrue))))"

subsection \<open>The axis order in the words of the specification\<close>



definition fn_args :: "nat \<Rightarrow> sym list" where
  "fn_args dim' = x_sym dim' @ c_sym dim' @ [Sym_EPS]"

definition add_to_cache :: "engine \<Rightarrow> rbf \<Rightarrow> pyseq \<Rightarrow> unit outcome" where
  "add_to_cache eng self diff0 =
     (let diff = tuple diff0;
          dim' = length (elems diff)
      in case derive eng self (elems diff) of
           Inl err \<Rightarrow> \<lparr>result = Inl err, state = self, trace = []\<rparr>
         | Inr expr \<Rightarrow>
             if self_package self = ''numpy'' then
               (case lambdify eng (fn_args dim') expr of
                  Inl err \<Rightarrow> \<lparr>result = Inl err, state = self,
                               trace = [Compile ''numpy'' (fn_args dim') expr]\<rparr>
                | Inr func \<Rightarrow>
                    \<lparr>result = Inr (),
                     state = self\<lparr>self_cache :=
                       (self_cache self)(diff \<mapsto> check_lambdified_output func)\<rparr>,
                     trace = [Compile ''numpy'' (fn_args dim') expr]\<rparr>)
             else if self_package self = ''cython'' then
               (case ufuncify eng (fn_args dim') expr of
                  Inl err \<Rightarrow> \<lparr>result = Inl err, state = self,
                               trace = [Compile ''cython'' (fn_args dim') expr]\<rparr>
                | Inr func \<Rightarrow>
                    \<lparr>result = Inr (),
                     state = self\<lparr>self_cache := (self_cache self)(diff \<mapsto> func)\<rparr>,
                     trace = [Compile ''cython'' (fn_args dim') expr]\<rparr>)
             else \<lparr>result = Inr (), state = self, trace = []\<rparr>)"

subsection \<open>__call__\<close>

text \<open>
  The arguments \<open>x\<close>, \<open>c\<close> and \<open>eps\<close> are the arrays that \<open>np.asarray(.., dtype=float)\<close>
  returns; \<open>eps\<close> and \<open>diff\<close> are \<open>None\<close> when omitted. The first part of
  \<open>__call__\<close>, down to the last \<open>raise ValueError\<close>, computes the defaults and checks
  the shapes. The defaults are computed first: \<open>c.shape[0]\<close> and \<open>x.shape[1]\<close> are read
  before any check. In the third check \<open>&\<close> evaluates both operands, so \<open>eps.shape[0]\<close>
  is read whatever \<open>eps.ndim\<close> is.
\<close>

definition validate ::
  "ndarray \<Rightarrow> ndarray \<Rightarrow> ndarray option \<Rightarrow> pyseq option \<Rightarrow> error + (ndarray \<times> pyseq)" where
  "validate x c eps diff =
     (case (case eps of
              None \<Rightarrow> (case shape_at c 0 of Inl e \<Rightarrow> Inl e | Inr m \<Rightarrow> Inr (ones m))
            | Some a \<Rightarrow> Inr a) of
        Inl e \<Rightarrow> Inl e
      | Inr eps' \<Rightarrow>
     (case (case diff of
              None \<Rightarrow> (case shape_at x 1 of
                         Inl e \<Rightarrow> Inl e
                       | Inr d \<Rightarrow> Inr (PyTuple (replicate d 0)))
            | Some d \<Rightarrow> Inr (tuple d)) of
        Inl e \<Rightarrow> Inl e
      | Inr diff' \<Rightarrow>
          if \<not> (ndim x = 2 \<and> ndim c = 2) then Inl ValueError
          else if \<not> (shape x ! 1 = shape c ! 1) then Inl ValueError
          else
            (case shape_at eps' 0 of
               Inl e \<Rightarrow> Inl e
             | Inr m \<Rightarrow>
                 if \<not> (ndim eps' = 1 \<and> m = shape c ! 0) then Inl ValueError
                 else if \<not> (length (elems diff') = shape x ! 1) then Inl ValueError
                 else Inr (eps', diff'))))"

text \<open>
  \<open>x[:,None,:]\<close> then \<open>einsum('ijk->kij')\<close> then \<open>tuple(x)\<close>: one array of shape
  \<open>(N,1)\<close> per axis, holding that coordinate of every point; for \<open>c\<close> one array of shape
  \<open>(1,M)\<close> per axis. A numpy array of shape \<open>(N,D)\<close> has \<open>N*D\<close> entries, so
  entry \<open>(i,k)\<close> is at index \<open>i*D + k\<close> of its data.
\<close>

definition item2 :: "ndarray \<Rightarrow> nat \<Rightarrow> nat \<Rightarrow> fl" where
  "item2 a i k = data a ! (i * (shape a ! 1) + k)"

definition x_axes :: "ndarray \<Rightarrow> ndarray list" where
  "x_axes x =
     map (\<lambda>k. \<lparr>shape = [shape x ! 0, 1], data = map (\<lambda>i. item2 x i k) [0..<shape x ! 0]\<rparr>)
       [0..<shape x ! 1]"

definition c_axes :: "ndarray \<Rightarrow> ndarray list" where
  "c_axes c =
     map (\<lambda>k. \<lparr>shape = [1, shape c ! 0], data = map (\<lambda>j. item2 c j k) [0..<shape c ! 0]\<rparr>)
       [0..<shape c ! 1]"

definition call_args :: "ndarray \<Rightarrow> ndarray \<Rightarrow> ndarray \<Rightarrow> ndarray list" where
  "call_args x c eps = x_axes x @ c_axes c @ [eps]"

text \<open>
  \<open>RBF.__call__(self, x, c, eps, diff)\<close>. After the checks: a signature that is not a key
  of the cache is compiled by \<open>add_to_cache\<close>; the stored function is called inside
  \<open>warnings.catch_warnings()\<close> with the filter \<open>"ignore"\<close>, so its warnings are dropped;
  the output goes through \<open>_replace_nan\<close>.
\<close>

definition call ::
  "engine \<Rightarrow> rbf \<Rightarrow> ndarray \<Rightarrow> ndarray \<Rightarrow> ndarray option \<Rightarrow> pyseq option \<Rightarrow> raw outcome" where
  "call eng self x c eps diff =
     (case validate x c eps diff of
        Inl e \<Rightarrow> \<lparr>result = Inl e, state = self, trace = []\<rparr>
      | Inr (eps', diff') \<Rightarrow>
          (let added = (if diff' \<notin> dom (self_cache self) then add_to_cache eng self diff'
                        else \<lparr>result = Inr (), state = self, trace = []\<rparr>)
           in (case result added of
                 Inl e \<Rightarrow> \<lparr>result = Inl e, state = state added, trace = trace added\<rparr>
               | Inr _ \<Rightarrow>
                   (case self_cache (state added) diff' of
                      None \<Rightarrow>
                        \<lparr>result = Inl KeyError, state = state added, trace = trace added\<rparr>
                    | Some f \<Rightarrow>
                        (case fst (f (call_args x c eps')) of
                           Inl e \<Rightarrow> \<lparr>result = Inl e, state = state added,
                                      trace = trace added @ [Invoke diff']\<rparr>
                         | Inr out \<Rightarrow> \<lparr>result = replace_nan out, state = state added,
                                        trace = trace added @ [Invoke diff']\<rparr>)))))"

section \<open>A reference library\<close>

text \<open>
  A small instance of \<open>engine\<close> on which the methods can be run. Its symbolic part
  rebuilds expressions with constructors that fold constants and cancel \<open>a - a\<close>,
  differentiates by the usual rules, and takes a limit by substitution where that is the
  limit; its two compilers evaluate the expression entry by entry under numpy's
  broadcasting rules for arrays of at most two dimensions. Signed zeros and rounding are not
  modelled.
\<close>

fun syms :: "expr \<Rightarrow> sym list" where
  "syms (Num a) = []"
| "syms (Var v) = [v]"
| "syms (Add a b) = syms a @ syms b"
| "syms (Sub a b) = syms a @ syms b"
| "syms (Mul a b) = syms a @ syms b"
| "syms (Div a b) = syms a @ syms b"
| "syms (IntPow a n) = syms a"
| "syms (Sqrt a) = syms a"
| "syms (Log a) = syms a"
| "syms (Exp a) = syms a"
| "syms (Lt a b) = syms a @ syms b"
| "syms BTrue = []"
| "syms (Piecewise a c b d) = syms a @ syms c @ syms b @ syms d"

definition ref_has :: "expr \<Rightarrow> sym \<Rightarrow> bool" where
  "ref_has e s = (s \<in> set (syms e))"

fun is_num :: "expr \<Rightarrow> real \<Rightarrow> bool" where
  "is_num (Num a) b = (a = b)"
| "is_num _ b = False"

fun mk_add :: "expr \<Rightarrow> expr \<Rightarrow> expr" where
  "mk_add (Num a) (Num b) = Num (a + b)"
| "mk_add a b = (if is_num a 0 then b else if is_num b 0 then a else Add a b)"

fun mk_sub :: "expr \<Rightarrow> expr \<Rightarrow> expr" where
  "mk_sub (Num a) (Num b) = Num (a - b)"
| "mk_sub a b = (if a = b then Num 0 else if is_num b 0 then a else Sub a b)"

fun mk_mul :: "expr \<Rightarrow> expr \<Rightarrow> expr" where
  "mk_mul (Num a) (Num b) = Num (a * b)"
| "mk_mul a b =
     (if is_num a 0 \<or> is_num b 0 then Num 0
      else if is_num a 1 then b
      else if is_num b 1 then a
      else Mul a b)"

fun mk_div :: "expr \<Rightarrow> expr \<Rightarrow> expr" where
  "mk_div a b =
     (if is_num b 0 then Div a b
      else if is_num b 1 then a
      else if is_num a 0 then Num 0
      else Div a b)"

fun mk_sqrt :: "expr \<Rightarrow> expr" where
  "mk_sqrt a = (if is_num a 0 then Num 0 else if is_num a 1 then Num 1 else Sqrt a)"

fun mk_pow :: "expr \<Rightarrow> nat \<Rightarrow> expr" where
  "mk_pow (Num a) n = Num (a ^ n)"
| "mk_pow (Sqrt a) n = (if n = 2 then a else if n = 0 then Num 1 else IntPow (Sqrt a) n)"
| "mk_pow a n = (if n = 0 then Num 1 else if n = 1 then a else IntPow a n)"

fun rebuild :: "expr \<Rightarrow> expr" where
  "rebuild (Add a b) = mk_add (rebuild a) (rebuild b)"
| "rebuild (Sub a b) = mk_sub (rebuild a) (rebuild b)"
| "rebuild (Mul a b) = mk_mul (rebuild a) (rebuild b)"
| "rebuild (Div a b) = mk_div (rebuild a) (rebuild b)"
| "rebuild (IntPow a n) = mk_pow (rebuild a) n"
| "rebuild (Sqrt a) = mk_sqrt (rebuild a)"
| "rebuild (Log a) = Log (rebuild a)"
| "rebuild (Exp a) = Exp (rebuild a)"
| "rebuild (Lt a b) = Lt (rebuild a) (rebuild b)"
| "rebuild (Piecewise a c b d) = Piecewise (rebuild a) (rebuild c) (rebuild b) (rebuild d)"
| "rebuild e = e"

fun replace :: "expr \<Rightarrow> sym \<Rightarrow> expr \<Rightarrow> expr" where
  "replace (Num a) s by = Num a"
| "replace (Var v) s by = (if v = s then by else Var v)"
| "replace (Add a b) s by = Add (replace a s by) (replace b s by)"
| "replace (Sub a b) s by = Sub (replace a s by) (replace b s by)"
| "replace (Mul a b) s by = Mul (replace a s by) (replace b s by)"
| "replace (Div a b) s by = Div (replace a s by) (replace b s by)"
| "replace (IntPow a n) s by = IntPow (replace a s by) n"
| "replace (Sqrt a) s by = Sqrt (replace a s by)"
| "replace (Log a) s by = Log (replace a s by)"
| "replace (Exp a) s by = Exp (replace a s by)"
| "replace (Lt a b) s by = Lt (replace a s by) (replace b s by)"
| "replace BTrue s by = BTrue"
| "replace (Piecewise a c b d) s by =
     Piecewise (replace a s by) (replace c s by) (replace b s by) (replace d s by)"

definition ref_subs :: "expr \<Rightarrow> sym \<Rightarrow> expr \<Rightarrow> expr" where
  "ref_subs e s by = rebuild (replace e s by)"

fun deriv :: "sym \<Rightarrow> expr \<Rightarrow> expr" where
  "deriv s (Num a) = Num 0"
| "deriv s (Var v) = (if v = s then Num 1 else Num 0)"
| "deriv s (Add a b) = mk_add (deriv s a) (deriv s b)"
| "deriv s (Sub a b) = mk_sub (deriv s a) (deriv s b)"
| "deriv s (Mul a b) = mk_add (mk_mul (deriv s a) b) (mk_mul a (deriv s b))"
| "deriv s (Div a b) =
     mk_div (mk_sub (mk_mul (deriv s a) b) (mk_mul a (deriv s b))) (mk_pow b 2)"
| "deriv s (IntPow a n) = mk_mul (mk_mul (Num (of_nat n)) (mk_pow a (n - 1))) (deriv s a)"
| "deriv s (Sqrt a) = mk_div (deriv s a) (mk_mul (Num 2) (Sqrt a))"
| "deriv s (Log a) = mk_div (deriv s a) a"
| "deriv s (Exp a) = mk_mul (Exp a) (deriv s a)"
| "deriv s (Lt a b) = Num 0"
| "deriv s BTrue = Num 0"
| "deriv s (Piecewise a c b d) = Piecewise (deriv s a) c (deriv s b) d"

text \<open>
  \<open>e.diff()\<close> without variables: the library differentiates by the only free symbol of
  \<open>e\<close>, returns 0 for an expression without free symbols, and raises ValueError when
  \<open>e\<close> has several.
\<close>

definition ref_diff :: "expr \<Rightarrow> sym list \<Rightarrow> error + expr" where
  "ref_diff e vs =
     (if vs = [] then
        (case remdups (syms e) of
           [] \<Rightarrow> Inr (Num 0)
         | [v] \<Rightarrow> Inr (deriv v e)
         | _ \<Rightarrow> Inl ValueError)
      else Inr (foldl (\<lambda>a v. deriv v a) e vs))"

text \<open>
  \<open>e.limit(xi, ci)\<close>. Where \<open>e\<close> with \<open>ci\<close> in place of \<open>xi\<close> has no
  division by zero and no logarithm of zero, and no relation or piecewise part, it is built
  from functions that are continuous there and is the limit. Otherwise the limit is not
  the substituted expression, and this library gives up with NotImplementedError where the
  real one goes on to compute it.
\<close>

fun no_direct_limit :: "expr \<Rightarrow> bool" where
  "no_direct_limit (Num a) = False"
| "no_direct_limit (Var v) = False"
| "no_direct_limit (Add a b) = (no_direct_limit a \<or> no_direct_limit b)"
| "no_direct_limit (Sub a b) = (no_direct_limit a \<or> no_direct_limit b)"
| "no_direct_limit (Mul a b) = (no_direct_limit a \<or> no_direct_limit b)"
| "no_direct_limit (Div a b) = (is_num b 0 \<or> no_direct_limit a \<or> no_direct_limit b)"
| "no_direct_limit (IntPow a n) = no_direct_limit a"
| "no_direct_limit (Sqrt a) = no_direct_limit a"
| "no_direct_limit (Log a) = (is_num a 0 \<or> no_direct_limit a)"
| "no_direct_limit (Exp a) = no_direct_limit a"
| "no_direct_limit (Lt a b) = True"
| "no_direct_limit BTrue = True"
| "no_direct_limit (Piecewise a c b d) = True"

definition ref_limit :: "expr \<Rightarrow> sym \<Rightarrow> sym \<Rightarrow> error + expr" where
  "ref_limit e xi ci =
     (let e' = ref_subs e xi (Var ci)
      in if no_direct_limit e' then Inl NotImplementedError else Inr e')"

subsection \<open>Numeric evaluation\<close>

fun fneg :: "fl \<Rightarrow> fl" where
  "fneg (Fin a) = Fin (- a)"
| "fneg PInf = NInf"
| "fneg NInf = PInf"
| "fneg NaN = NaN"

fun fadd :: "fl \<Rightarrow> fl \<Rightarrow> fl" where
  "fadd NaN b = NaN"
| "fadd a NaN = NaN"
| "fadd (Fin a) (Fin b) = Fin (a + b)"
| "fadd PInf NInf = NaN"
| "fadd NInf PInf = NaN"
| "fadd PInf b = PInf"
| "fadd NInf b = NInf"
| "fadd a PInf = PInf"
| "fadd a NInf = NInf"

definition fsub :: "fl \<Rightarrow> fl \<Rightarrow> fl" where
  "fsub a b = fadd a (fneg b)"

fun fmul :: "fl \<Rightarrow> fl \<Rightarrow> fl" where
  "fmul NaN b = NaN"
| "fmul a NaN = NaN"
| "fmul (Fin a) (Fin b) = Fin (a * b)"
| "fmul (Fin a) PInf = (if a = 0 then NaN else if 0 < a then PInf else NInf)"
| "fmul (Fin a) NInf = (if a = 0 then NaN else if 0 < a then NInf else PInf)"
| "fmul PInf (Fin b) = (if b = 0 then NaN else if 0 < b then PInf else NInf)"
| "fmul NInf (Fin b) = (if b = 0 then NaN else if 0 < b then NInf else PInf)"
| "fmul PInf PInf = PInf"
| "fmul PInf NInf = NInf"
| "fmul NInf PInf = NInf"
| "fmul NInf NInf = PInf"

fun fdiv :: "fl \<Rightarrow> fl \<Rightarrow> fl" where
  "fdiv NaN b = NaN"
| "fdiv a NaN = NaN"
| "fdiv (Fin a) (Fin b) =
     (if b = 0 then (if a = 0 then NaN else if 0 < a then PInf else NInf) else Fin (a / b))"
| "fdiv (Fin a) b = Fin 0"
| "fdiv PInf (Fin b) = (if b < 0 then NInf else PInf)"
| "fdiv NInf (Fin b) = (if b < 0 then PInf else NInf)"
| "fdiv a b = NaN"

fun fpow :: "fl \<Rightarrow> nat \<Rightarrow> fl" where
  "fpow a 0 = Fin 1"
| "fpow a (Suc n) = fmul a (fpow a n)"

fun fsqrt :: "fl \<Rightarrow> fl" where
  "fsqrt (Fin a) = (if a < 0 then NaN else Fin (sqrt a))"
| "fsqrt PInf = PInf"
| "fsqrt a = NaN"

fun flog :: "fl \<Rightarrow> fl" where
  "flog (Fin a) = (if a < 0 then NaN else if a = 0 then NInf else Fin (ln a))"
| "flog PInf = PInf"
| "flog a = NaN"

fun fexp :: "fl \<Rightarrow> fl" where
  "fexp (Fin a) = Fin (exp a)"
| "fexp PInf = PInf"
| "fexp NInf = Fin 0"
| "fexp NaN = NaN"

fun flt :: "fl \<Rightarrow> fl \<Rightarrow> bool" where
  "flt (Fin a) (Fin b) = (a < b)"
| "flt (Fin a) PInf = True"
| "flt NInf (Fin b) = True"
| "flt NInf PInf = True"
| "flt a b = False"

fun eval :: "(sym \<Rightarrow> fl) \<Rightarrow> expr \<Rightarrow> fl" where
  "eval env (Num a) = Fin a"
| "eval env (Var v) = env v"
| "eval env (Add a b) = fadd (eval env a) (eval env b)"
| "eval env (Sub a b) = fsub (eval env a) (eval env b)"
| "eval env (Mul a b) = fmul (eval env a) (eval env b)"
| "eval env (Div a b) = fdiv (eval env a) (eval env b)"
| "eval env (IntPow a n) = fpow (eval env a) n"
| "eval env (Sqrt a) = fsqrt (eval env a)"
| "eval env (Log a) = flog (eval env a)"
| "eval env (Exp a) = fexp (eval env a)"
| "eval env (Lt a b) = (if flt (eval env a) (eval env b) then Fin 1 else Fin 0)"
| "eval env BTrue = Fin 1"
| "eval env (Piecewise a c b d) =
     (if eval env c = Fin 1 then eval env a
      else if eval env d = Fin 1 then eval env b
      else NaN)"

text \<open>
  Broadcasting of arrays of at most two dimensions: a shape is padded with 1 on the left,
  and an axis of length 1 is repeated.
\<close>

definition rows :: "ndarray \<Rightarrow> nat" where
  "rows a = (case shape a of [n, m] \<Rightarrow> n | _ \<Rightarrow> 1)"

definition cols :: "ndarray \<Rightarrow> nat" where
  "cols a = (case shape a of [] \<Rightarrow> 1 | m # _ \<Rightarrow> last (shape a))"

definition entry :: "ndarray \<Rightarrow> nat \<Rightarrow> nat \<Rightarrow> fl" where
  "entry a i j =
     data a ! ((if rows a = 1 then 0 else i) * cols a + (if cols a = 1 then 0 else j))"

fun bcast :: "nat list \<Rightarrow> nat option" where
  "bcast [] = Some 1"
| "bcast (d # ds) =
     (case bcast ds of
        None \<Rightarrow> None
      | Some b \<Rightarrow> if d = b \<or> b = 1 then Some d else if d = 1 then Some b else None)"

definition lookup_env :: "(sym \<times> ndarray) list \<Rightarrow> nat \<Rightarrow> nat \<Rightarrow> sym \<Rightarrow> fl" where
  "lookup_env bound i j s = (case map_of bound s of None \<Rightarrow> NaN | Some a \<Rightarrow> entry a i j)"

definition apply_numeric :: "(sym \<times> ndarray) list \<Rightarrow> expr \<Rightarrow> error + raw" where
  "apply_numeric bound e =
     (let arrs = map snd bound in
      if \<exists>a \<in> set arrs. 2 < ndim a then Inl BackendError
      else
        (case (bcast (map rows arrs), bcast (map cols arrs)) of
           (Some n, Some m) \<Rightarrow>
             (let vals = concat (map (\<lambda>i. map (\<lambda>j. eval (lookup_env bound i j) e) [0..<m])
                                   [0..<n]);
                  nd = fold max (map ndim arrs) 0
              in if nd = 0 then Inr (Scalar (eval (lookup_env bound 0 0) e))
                 else Inr (Array \<lparr>shape = (if nd = 1 then [m] else [n, m]), data = vals\<rparr>))
         | _ \<Rightarrow> Inl ValueError))"

definition numeric_warnings :: "error + raw \<Rightarrow> string list" where
  "numeric_warnings r =
     (case r of
        Inr (Array a) \<Rightarrow>
          (if \<exists>v \<in> set (data a). v = NaN \<or> v = PInf \<or> v = NInf
           then [''RuntimeWarning''] else [])
      | _ \<Rightarrow> [])"

text \<open>
  The compiled ufunc broadcasts all its arguments. The lambdified function computes with the
  arguments whose symbols occur in the expression only, so its output has their broadcast
  shape, and is a scalar when the expression has no symbol.
\<close>

definition ref_ufuncify :: "sym list \<Rightarrow> expr \<Rightarrow> error + callable" where
  "ref_ufuncify params e =
     (if set (syms e) \<subseteq> set params
      then Inr (\<lambda>args.
             if length args \<noteq> length params then (Inl TypeError, [])
             else (apply_numeric (zip params args) e, []))
      else Inl BackendError)"

definition ref_lambdify :: "sym list \<Rightarrow> expr \<Rightarrow> error + callable" where
  "ref_lambdify params e =
     (if set (syms e) \<subseteq> set params
      then Inr (\<lambda>args.
             if length args \<noteq> length params then (Inl TypeError, [])
             else
               let r = apply_numeric (filter (\<lambda>(s, a). s \<in> set (syms e)) (zip params args)) e
               in (r, numeric_warnings r))
      else Inl BackendError)"

definition ref_engine :: engine where
  "ref_engine =
     \<lparr>sym_has = ref_has, sym_subs = ref_subs, sym_diff = ref_diff, sym_limit = ref_limit,
      lambdify = ref_lambdify, ufuncify = ref_ufuncify\<rparr>"

section \<open>Example objects\<close>

text \<open>
  The points \<open>[[-1],[0],[1]]\<close>, the centre \<open>[[0]]\<close> and the shape parameter \<open>[2.0]\<close>;
  the object that \<open>RBF(EPS*R, package)\<close> constructs (as \<open>phs1\<close> of the module does);
  and that object after one evaluation with every optional argument omitted.
\<close>

definition ex_x :: ndarray where
  "ex_x = \<lparr>shape = [3, 1], data = [Fin (- 1), Fin 0, Fin 1]\<rparr>"

definition ex_c :: ndarray where
  "ex_c = \<lparr>shape = [1, 1], data = [Fin 0]\<rparr>"

definition ex_eps :: ndarray where
  "ex_eps = \<lparr>shape = [1], data = [Fin 2]\<rparr>"

definition phs1 :: "string \<Rightarrow> rbf" where
  "phs1 package = \<lparr>self_expr = Mul (Var Sym_EPS) (Var Sym_R), self_package = package,
      self_tol = None, self_cache = Map.empty\<rparr>"

definition ex_cached :: rbf where
  "ex_cached = state (call ref_engine (phs1 ''numpy'') ex_x ex_c None None)"

text \<open>One-dimensional points \<open>[0., 1.]\<close>: an array that is not two-dimensional.\<close>

definition ex_x1d :: ndarray where
  "ex_x1d = \<lparr>shape = [2], data = [Fin 0, Fin 1]\<rparr>"

text \<open>Whether a key of the cache is a tuple.\<close>

fun is_tuple :: "pyseq \<Rightarrow> bool" where
  "is_tuple (PyTuple ds) = True"
| "is_tuple (PyList ds) = False"

text \<open>Whether an event is a call of a compiler.\<close>

fun is_compile :: "event \<Rightarrow> bool" where
  "is_compile (Compile p a e) = True"
| "is_compile ev = False"

text \<open>
  One point \<open>[[1, 2]]\<close> and one centre \<open>[[0, 0]]\<close> in the plane, and three
  evaluations in a row on a new object, for the signatures \<open>(1,0)\<close>, \<open>(0,1)\<close>
  and \<open>(1,0)\<close>.
\<close>

definition ex_x2 :: ndarray where
  "ex_x2 = \<lparr>shape = [1, 2], data = [Fin 1, Fin 2]\<rparr>"

definition ex_c2 :: ndarray where
  "ex_c2 = \<lparr>shape = [1, 2], data = [Fin 0, Fin 0]\<rparr>"

definition ex_o1 :: "raw outcome" where
  "ex_o1 = call ref_engine (phs1 ''cython'') ex_x2 ex_c2 None (Some (PyTuple [1, 0]))"

definition ex_o2 :: "raw outcome" where
  "ex_o2 = call ref_engine (state ex_o1) ex_x2 ex_c2 None (Some (PyTuple [0, 1]))"

definition ex_o3 :: "raw outcome" where
  "ex_o3 = call ref_engine (state ex_o2) ex_x2 ex_c2 None (Some (PyTuple [1, 0]))"


text \<open>
  The objects for \<open>1/(EPS*R)\<close> with the numpy backend and for
  \<open>(EPS*R)**2*log(EPS*R)\<close> (as \<open>phs2\<close> of the module).
\<close>

definition inv_rbf :: rbf where
  "inv_rbf = \<lparr>self_expr = Div (Num 1) (Mul (Var Sym_EPS) (Var Sym_R)),
      self_package = ''numpy'', self_tol = None, self_cache = Map.empty\<rparr>"

definition phs2 :: rbf where
  "phs2 = \<lparr>self_expr = Mul (IntPow (Mul (Var Sym_EPS) (Var Sym_R)) 2)
                           (Log (Mul (Var Sym_EPS) (Var Sym_R))),
      self_package = ''cython'', self_tol = None, self_cache = Map.empty\<rparr>"

text \<open>The object for \<open>EPS*R**2\<close> with the numpy backend.\<close>

definition sq_rbf :: rbf where
  "sq_rbf = \<lparr>self_expr = Mul (Var Sym_EPS) (IntPow (Var Sym_R) 2),
      self_package = ''numpy'', self_tol = None, self_cache = Map.empty\<rparr>"

text \<open>
  Two points and three centres in a space of dimension 0: arrays of shape \<open>(2,0)\<close>
  and \<open>(3,0)\<close>.
\<close>

definition ex_x0 :: ndarray where
  "ex_x0 = \<lparr>shape = [2, 0], data = []\<rparr>"

definition ex_c0 :: ndarray where
  "ex_c0 = \<lparr>shape = [3, 0], data = []\<rparr>"

text \<open>Two centres \<open>[[0],[1]]\<close> on the line.\<close>

definition ex_cc :: ndarray where
  "ex_cc = \<lparr>shape = [2, 1], data = [Fin 0, Fin 1]\<rparr>"


section \<open>Evaluation of the model on concrete inputs\<close>

lemmas run_simps = call_def validate_def shape_at_def ndim_def ones_def tuple_def
  add_to_cache_def derive_def r_sym_def x_sym_def c_sym_def fn_args_def
  ref_engine_def ref_subs_def ref_has_def ref_diff_def ref_limit_def
  ref_ufuncify_def ref_lambdify_def apply_numeric_def numeric_warnings_def
  rows_def cols_def entry_def lookup_env_def
  call_args_def x_axes_def c_axes_def item2_def replace_nan_def isnan_def fsub_def
  check_lambdified_output_def full_def
  Let_def upt_rec numeral_2_eq_2 numeral_3_eq_3

section \<open>The two paths of an evaluation\<close>

lemma call_invalid:
  "validate x c eps diff = Inl e \<Longrightarrow>
   call eng self x c eps diff = \<lparr>result = Inl e, state = self, trace = []\<rparr>"
  by (simp add: call_def)

lemma call_hit:
  "validate x c eps diff = Inr (eps', d) \<Longrightarrow> self_cache self d = Some f \<Longrightarrow>
   call eng self x c eps diff =
     \<lparr>result = (case fst (f (call_args x c eps')) of
                  Inl e \<Rightarrow> Inl e | Inr out \<Rightarrow> replace_nan out),
      state = self, trace = [Invoke d]\<rparr>"
  by (auto simp add: call_def split: sum.splits)

section \<open>Changing the tolerance or the backend\<close>

text \<open>
  C1 (as amended). \<open>set_tol\<close> and \<open>set_package\<close> (with a valid name) leave the
  function cache as it is: an evaluation after either of them, for a signature that is
  cached, calls the function that was stored before the change and compiles nothing. Only
  \<open>clear_cache\<close> empties the cache.
\<close>

theorem setters_keep_cache:
  assumes "validate x c eps diff = Inr (eps', d)"
      and "self_cache self d = Some f"
      and "self' = set_tol tol self \<or> set_package package self = Inr self'"
  shows "self_cache self' = self_cache self \<and>
         call eng self' x c eps diff =
           \<lparr>result = (case fst (f (call_args x c eps')) of
                        Inl e \<Rightarrow> Inl e | Inr out \<Rightarrow> replace_nan out),
            state = self', trace = [Invoke d]\<rparr> \<and>
         self_cache (clear_cache self') = Map.empty"
proof -
  have same: "self_cache self' = self_cache self"
    using assms(3) by (auto simp add: set_tol_def set_package_def split: if_splits)
  then have "self_cache self' d = Some f"
    using assms(2) by simp
  then show ?thesis
    using same call_hit [OF assms(1)] by (simp add: clear_cache_def)
qed

theorem setters_keep_cache_witness:
  "validate ex_x ex_c None None = Inr (ones 1, PyTuple [0]) \<and>
   self_cache ex_cached (PyTuple [0]) \<noteq> None \<and>
   set_package ''cython'' ex_cached = Inr (ex_cached\<lparr>self_package := ''cython''\<rparr>) \<and>
   trace (call ref_engine (ex_cached\<lparr>self_package := ''cython''\<rparr>) ex_x ex_c None None) =
     [Invoke (PyTuple [0])]"
proof -
  have v: "validate ex_x ex_c None None = Inr (ones 1, PyTuple [0])"
    by (simp add: validate_def shape_at_def ndim_def ex_x_def ex_c_def ones_def)
  obtain f where f: "self_cache ex_cached (PyTuple [0]) = Some f"
    by (simp add: ex_cached_def run_simps phs1_def ex_x_def ex_c_def)
  have p: "set_package ''cython'' ex_cached = Inr (ex_cached\<lparr>self_package := ''cython''\<rparr>)"
    by (simp add: set_package_def)
  show ?thesis
    using setters_keep_cache [OF v f disjI2, OF p, of ref_engine] v f p by simp
qed

text \<open>
  The object \<open>ex_cached\<close> was evaluated once with no tolerance. After
  \<open>set_tol(0.1)\<close> its cache entry for \<open>(0,)\<close> is the same function, and the next
  evaluation calls it without compiling; after \<open>clear_cache\<close> the same evaluation
  compiles the piecewise expression of the new tolerance.
\<close>

theorem setters_keep_cache_counterexample:
  "self_tol ex_cached = None \<and>
   self_cache ex_cached (PyTuple [0]) \<noteq> None \<and>
   self_cache (set_tol (Some (1 / 10)) ex_cached) (PyTuple [0]) =
     self_cache ex_cached (PyTuple [0]) \<and>
   trace (call ref_engine (set_tol (Some (1 / 10)) ex_cached) ex_x ex_c None None) =
     [Invoke (PyTuple [0])] \<and>
   trace (call ref_engine (clear_cache (set_tol (Some (1 / 10)) ex_cached)) ex_x ex_c None None) =
     [Compile ''numpy'' [Sym_x 0, Sym_c 0, Sym_EPS]
        (Piecewise (Num 0)
           (Lt (Sqrt (Add (Num 0) (IntPow (Sub (Var (Sym_x 0)) (Var (Sym_c 0))) 2))) (Num (1 / 10)))
           (Mul (Var Sym_EPS) (Sqrt (IntPow (Sub (Var (Sym_x 0)) (Var (Sym_c 0))) 2)))
           BTrue),
      Invoke (PyTuple [0])]"
  by (simp add: ex_cached_def set_tol_def clear_cache_def run_simps phs1_def ex_x_def ex_c_def)

section \<open>Validation of the arguments\<close>

lemma validate_tuple:
  "validate x c eps diff = Inr (eps', d) \<Longrightarrow> tuple d = d"
  by (auto simp add: validate_def tuple_def split: sum.splits option.splits if_splits)

lemma validate_errors:
  "validate x c eps diff = Inl e \<Longrightarrow> e = ValueError \<or> e = IndexError"
  by (auto simp add: validate_def shape_at_def split: sum.splits option.splits if_splits)

text \<open>
  With both optional arguments given (and \<open>eps\<close> not a 0-d array) every violation of a
  shape invariant is a ValueError; with both omitted, two-dimensional \<open>x\<close> and \<open>c\<close>
  are rejected with ValueError exactly when their second axes differ.
\<close>

lemma validate_given_ValueError:
  assumes "0 < ndim a"
      and "ndim x \<noteq> 2 \<or> ndim c \<noteq> 2 \<or> shape x ! 1 \<noteq> shape c ! 1 \<or>
           ndim a \<noteq> 1 \<or> shape a ! 0 \<noteq> shape c ! 0 \<or> length (elems d) \<noteq> shape x ! 1"
  shows "validate x c (Some a) (Some d) = Inl ValueError"
  using assms by (auto simp add: validate_def shape_at_def ndim_def tuple_def)

lemma validate_2d_defaults:
  assumes "ndim x = 2" and "ndim c = 2"
  shows "validate x c None None =
           (if shape x ! 1 = shape c ! 1 then Inr (ones (shape c ! 0), PyTuple (replicate (shape x ! 1) 0))
            else Inl ValueError)"
  using assms by (auto simp add: validate_def shape_at_def ndim_def ones_def)

text \<open>
  C2 (the code at the failing input). Points that are a one-dimensional array, with \<open>diff\<close>
  omitted: the default \<open>(0,)*x.shape[1]\<close> is computed before the check of
  \<open>x.ndim\<close> and raises IndexError, where the check would raise ValueError, as it does
  when \<open>diff\<close> is given. In both cases the object is unchanged and nothing was compiled
  or called.
\<close>

theorem call_1d_points_IndexError:
  "call eng self ex_x1d ex_c None None = \<lparr>result = Inl IndexError, state = self, trace = []\<rparr> \<and>
   call eng self ex_x1d ex_c None (Some (PyTuple [0])) =
     \<lparr>result = Inl ValueError, state = self, trace = []\<rparr>"
  by (simp add: call_def validate_def shape_at_def ndim_def ex_x1d_def ex_c_def tuple_def)

section \<open>Construction\<close>

text \<open>
  C3. \<open>RBF(expr, package, tol)\<close> raises ValueError when \<open>expr.has(R)\<close> is false.
  Otherwise, for a valid package name, the object is constructed and its expression is
  \<open>expr.subs(R, EPS*R)\<close> when \<open>expr.has(EPS)\<close> is false, and \<open>expr\<close>
  unchanged when it is true.
\<close>

theorem init_normalizes:
  "(\<not> sym_has eng expr Sym_R \<longrightarrow> init eng expr package tol = Inl ValueError) \<and>
   (sym_has eng expr Sym_R \<and> package \<in> {''cython'', ''numpy''} \<longrightarrow>
      (\<exists>self. init eng expr package tol = Inr self \<and>
         self_expr self =
           (if sym_has eng expr Sym_EPS then expr
            else sym_subs eng expr Sym_R (Mul (Var Sym_EPS) (Var Sym_R)))))"
  by (auto simp add: init_def set_package_def set_tol_def clear_cache_def Let_def)

theorem init_normalizes_witness:
  "sym_has ref_engine (Var Sym_R) Sym_R \<and> \<not> sym_has ref_engine (Var Sym_R) Sym_EPS \<and>
   ''cython'' \<in> {''cython'', ''numpy''} \<and>
   (\<exists>self. init ref_engine (Var Sym_R) ''cython'' None = Inr self \<and>
      self_expr self = Mul (Var Sym_EPS) (Var Sym_R)) \<and>
   \<not> sym_has ref_engine (Num 1) Sym_R \<and>
   init ref_engine (Num 1) ''cython'' None = Inl ValueError"
  using init_normalizes [of ref_engine "Var Sym_R" "''cython''" None]
        init_normalizes [of ref_engine "Num 1" "''cython''" None]
  by (simp add: ref_engine_def ref_has_def ref_subs_def)

section \<open>The keys of the cache\<close>

lemma add_to_cache_list_tuple:
  "add_to_cache eng self (PyList ds) = add_to_cache eng self (PyTuple ds)"
  by (simp add: add_to_cache_def tuple_def)

lemma validate_list_tuple:
  "validate x c eps (Some (PyList ds)) = validate x c eps (Some (PyTuple ds))"
  by (simp add: validate_def tuple_def cong: sum.case_cong option.case_cong)

lemma add_to_cache_keys:
  "self_cache (state (add_to_cache eng self d)) k = Some f \<Longrightarrow>
   k = tuple d \<or> self_cache self k = Some f"
  by (auto simp add: add_to_cache_def Let_def split: sum.splits if_splits)

lemma call_state:
  "state (call eng self x c eps diff) = self \<or>
   (\<exists>d. state (call eng self x c eps diff) = state (add_to_cache eng self d))"
  by (auto simp add: call_def Let_def split: sum.splits option.splits prod.splits)

lemma add_to_cache_tuples:
  assumes "\<forall>k \<in> dom (self_cache self). is_tuple k"
  shows "\<forall>k \<in> dom (self_cache (state (add_to_cache eng self d))). is_tuple k"
proof
  fix k
  assume "k \<in> dom (self_cache (state (add_to_cache eng self d)))"
  then obtain f where "self_cache (state (add_to_cache eng self d)) k = Some f"
    by auto
  then have "k = tuple d \<or> self_cache self k = Some f"
    by (rule add_to_cache_keys)
  then show "is_tuple k"
    using assms by (auto simp add: tuple_def)
qed

text \<open>
  C10. \<open>__call__\<close> and \<open>add_to_cache\<close> convert the derivative specification with
  \<open>tuple(diff)\<close> before using it: a list and the tuple with the same entries give the
  same outcome (value, object state and events), and when every key of the cache is a tuple,
  every key is a tuple after either method.
\<close>

theorem diff_coerced_to_tuple:
  "call eng self x c eps (Some (PyList ds)) = call eng self x c eps (Some (PyTuple ds)) \<and>
   add_to_cache eng self (PyList ds) = add_to_cache eng self (PyTuple ds) \<and>
   ((\<forall>k \<in> dom (self_cache self). is_tuple k) \<longrightarrow>
      (\<forall>k \<in> dom (self_cache (state (call eng self x c eps diff))). is_tuple k) \<and>
      (\<forall>k \<in> dom (self_cache (state (add_to_cache eng self d))). is_tuple k))"
proof -
  have a: "call eng self x c eps (Some (PyList ds)) = call eng self x c eps (Some (PyTuple ds))"
    by (simp add: call_def validate_list_tuple)
  have b: "(\<forall>k \<in> dom (self_cache self). is_tuple k) \<longrightarrow>
      (\<forall>k \<in> dom (self_cache (state (call eng self x c eps diff))). is_tuple k)"
    using call_state [of eng self x c eps diff] add_to_cache_tuples [of self eng]
    by metis
  show ?thesis
    using a b add_to_cache_tuples [of self eng d] add_to_cache_list_tuple [of eng self ds]
    by blast
qed

theorem diff_coerced_to_tuple_witness:
  "dom (self_cache (phs1 ''numpy'')) = {} \<and>
   dom (self_cache ex_cached) = {PyTuple [0]} \<and>
   is_tuple (PyTuple [0]) \<and>
   call ref_engine (phs1 ''numpy'') ex_x ex_c None (Some (PyList [0])) =
     call ref_engine (phs1 ''numpy'') ex_x ex_c None (Some (PyTuple [0]))"
proof -
  have e: "dom (self_cache (phs1 ''numpy'')) = {}"
    by (simp add: phs1_def)
  have d: "dom (self_cache ex_cached) = {PyTuple [0]}"
    by (simp add: ex_cached_def run_simps phs1_def ex_x_def ex_c_def)
  have t: "\<forall>k \<in> dom (self_cache ex_cached). is_tuple k"
    using diff_coerced_to_tuple [of ref_engine "phs1 ''numpy''" ex_x ex_c None "[0]" None] e
    unfolding ex_cached_def by blast
  have c: "call ref_engine (phs1 ''numpy'') ex_x ex_c None (Some (PyList [0])) =
     call ref_engine (phs1 ''numpy'') ex_x ex_c None (Some (PyTuple [0]))"
    using diff_coerced_to_tuple [of ref_engine "phs1 ''numpy''" ex_x ex_c None "[0]"]
    by blast
  have "is_tuple (PyTuple [0])"
    using t d by blast
  then show ?thesis
    using e d c by (intro conjI)
qed

section \<open>The function cache\<close>

lemma add_to_cache_other_keys:
  "k \<noteq> tuple d \<Longrightarrow> self_cache (state (add_to_cache eng self d)) k = self_cache self k"
  by (auto simp add: add_to_cache_def Let_def split: sum.splits if_splits)

lemma add_to_cache_trace:
  "trace (add_to_cache eng self d) = [] \<or>
   (\<exists>p a e. trace (add_to_cache eng self d) = [Compile p a e])"
  by (auto simp add: add_to_cache_def Let_def split: sum.splits if_splits)

lemma add_to_cache_stored:
  "self_cache self (tuple d) = None \<Longrightarrow>
   self_cache (state (add_to_cache eng self d)) (tuple d) = Some f \<Longrightarrow>
   \<exists>p a e. trace (add_to_cache eng self d) = [Compile p a e]"
  by (auto simp add: add_to_cache_def Let_def split: sum.splits if_splits)

lemma call_miss:
  assumes "validate x c eps diff = Inr (eps', d)"
      and "self_cache self d = None"
      and "result (call eng self x c eps diff) = Inr out"
  shows "\<exists>p a e f. self_cache (state (call eng self x c eps diff)) d = Some f \<and>
           state (call eng self x c eps diff) = state (add_to_cache eng self d) \<and>
           trace (call eng self x c eps diff) = [Compile p a e, Invoke d]"
proof -
  have t: "tuple d = d"
    using assms(1) by (rule validate_tuple)
  let ?added = "add_to_cache eng self d"
  have r: "\<exists>u. result ?added = Inr u"
    using assms by (auto simp add: call_def Let_def domIff split: sum.splits)
  then obtain f where f: "self_cache (state ?added) d = Some f"
    using assms by (auto simp add: call_def Let_def domIff split: sum.splits option.splits)
  then obtain p a e where tr: "trace ?added = [Compile p a e]"
    using add_to_cache_stored [of self d eng f] assms(2) t by auto
  have "state (call eng self x c eps diff) = state ?added \<and>
        trace (call eng self x c eps diff) = trace ?added @ [Invoke d]"
    using assms r f by (auto simp add: call_def Let_def domIff split: sum.splits option.splits)
  then show ?thesis
    using f tr by simp
qed

lemma call_other_keys:
  assumes "validate x c eps diff = Inr (eps', d)" and "k \<noteq> d"
  shows "self_cache (state (call eng self x c eps diff)) k = self_cache self k"
proof -
  have "state (call eng self x c eps diff) = self \<or>
        state (call eng self x c eps diff) = state (add_to_cache eng self d)"
    using assms(1) by (auto simp add: call_def Let_def split: sum.splits option.splits)
  then show ?thesis
    using add_to_cache_other_keys [of k d eng self] assms validate_tuple [OF assms(1)]
    by auto
qed

text \<open>
  C4. On an object whose cache holds neither \<open>(1,0)\<close> nor \<open>(0,1)\<close>, three
  evaluations that return, for the signatures \<open>(1,0)\<close>, \<open>(0,1)\<close> and
  \<open>(1,0)\<close>, call a compiler exactly twice: the third evaluation finds the entry that
  the first one stored, calls it and compiles nothing, and the two signatures have an entry
  each.
\<close>

theorem cache_two_compilations:
  assumes "self_cache s0 (PyTuple [1, 0]) = None"
      and "self_cache s0 (PyTuple [0, 1]) = None"
      and "o1 = call eng s0 x1 c1 eps1 (Some (PyTuple [1, 0]))"
      and "o2 = call eng (state o1) x2 c2 eps2 (Some (PyTuple [0, 1]))"
      and "o3 = call eng (state o2) x3 c3 eps3 (Some (PyTuple [1, 0]))"
      and "result o1 = Inr v1" and "result o2 = Inr v2" and "result o3 = Inr v3"
  shows "length (filter is_compile (trace o1 @ trace o2 @ trace o3)) = 2 \<and>
         trace o3 = [Invoke (PyTuple [1, 0])] \<and>
         state o3 = state o2 \<and>
         self_cache (state o3) (PyTuple [1, 0]) = self_cache (state o1) (PyTuple [1, 0]) \<and>
         self_cache (state o1) (PyTuple [1, 0]) \<noteq> None \<and>
         self_cache (state o3) (PyTuple [0, 1]) \<noteq> None"
proof -
  obtain e1 where v1: "validate x1 c1 eps1 (Some (PyTuple [1, 0])) = Inr (e1, PyTuple [1, 0])"
    using assms(3,6)
    by (cases "validate x1 c1 eps1 (Some (PyTuple [1, 0]))")
       (auto simp add: call_def validate_def tuple_def split: sum.splits if_splits option.splits)
  obtain e2 where v2: "validate x2 c2 eps2 (Some (PyTuple [0, 1])) = Inr (e2, PyTuple [0, 1])"
    using assms(4,7)
    by (cases "validate x2 c2 eps2 (Some (PyTuple [0, 1]))")
       (auto simp add: call_def validate_def tuple_def split: sum.splits if_splits option.splits)
  obtain e3 where v3: "validate x3 c3 eps3 (Some (PyTuple [1, 0])) = Inr (e3, PyTuple [1, 0])"
    using assms(5,8)
    by (cases "validate x3 c3 eps3 (Some (PyTuple [1, 0]))")
       (auto simp add: call_def validate_def tuple_def split: sum.splits if_splits option.splits)
  have r1: "result (call eng s0 x1 c1 eps1 (Some (PyTuple [1, 0]))) = Inr v1"
    using assms(3,6) by simp
  from call_miss [OF v1 assms(1) r1]
  obtain p1 a1 ex1 f1 where s1: "self_cache (state o1) (PyTuple [1, 0]) = Some f1"
      "state o1 = state (add_to_cache eng s0 (PyTuple [1, 0]))"
      "trace o1 = [Compile p1 a1 ex1, Invoke (PyTuple [1, 0])]"
    unfolding assms(3) by blast
  have n2: "self_cache (state o1) (PyTuple [0, 1]) = None"
    using s1(2) assms(2) add_to_cache_other_keys [of "PyTuple [0, 1]" "PyTuple [1, 0]" eng s0]
    by (simp add: tuple_def)
  have r2: "result (call eng (state o1) x2 c2 eps2 (Some (PyTuple [0, 1]))) = Inr v2"
    using assms(4,7) by simp
  from call_miss [OF v2 n2 r2]
  obtain p2 a2 ex2 f2 where s2: "self_cache (state o2) (PyTuple [0, 1]) = Some f2"
      "state o2 = state (add_to_cache eng (state o1) (PyTuple [0, 1]))"
      "trace o2 = [Compile p2 a2 ex2, Invoke (PyTuple [0, 1])]"
    unfolding assms(4) by blast
  have k2: "self_cache (state o2) (PyTuple [1, 0]) = Some f1"
    using s2(2) s1(1)
      add_to_cache_other_keys [of "PyTuple [1, 0]" "PyTuple [0, 1]" eng "state o1"]
    by (simp add: tuple_def)
  have o3: "o3 = \<lparr>result = (case fst (f1 (call_args x3 c3 e3)) of
                              Inl e \<Rightarrow> Inl e | Inr out \<Rightarrow> replace_nan out),
                  state = state o2, trace = [Invoke (PyTuple [1, 0])]\<rparr>"
    using call_hit [OF v3 k2] assms(5) by simp
  show ?thesis
    using s1 s2 k2 o3 by simp
qed

theorem cache_two_compilations_witness:
  "self_cache (phs1 ''cython'') (PyTuple [1, 0]) = None \<and>
   self_cache (phs1 ''cython'') (PyTuple [0, 1]) = None \<and>
   \<not> isl (result ex_o1) \<and> \<not> isl (result ex_o2) \<and> \<not> isl (result ex_o3) \<and>
   length (filter is_compile (trace ex_o1 @ trace ex_o2 @ trace ex_o3)) = 2 \<and>
   trace ex_o3 = [Invoke (PyTuple [1, 0])]"
proof -
  obtain v1 where r1: "result ex_o1 = Inr v1"
    by (simp add: ex_o1_def run_simps phs1_def ex_x2_def ex_c2_def)
  obtain v2 where r2: "result ex_o2 = Inr v2"
    by (simp add: ex_o2_def ex_o1_def run_simps phs1_def ex_x2_def ex_c2_def)
  obtain v3 where r3: "result ex_o3 = Inr v3"
    by (simp add: ex_o3_def ex_o2_def ex_o1_def run_simps phs1_def ex_x2_def ex_c2_def)
  have e: "self_cache (phs1 ''cython'') (PyTuple [1, 0]) = None"
          "self_cache (phs1 ''cython'') (PyTuple [0, 1]) = None"
    by (simp_all add: phs1_def)
  show ?thesis
    using cache_two_compilations [OF e ex_o1_def ex_o2_def ex_o3_def r1 r2 r3] e r1 r2 r3
    by auto
qed


section \<open>The singularity tolerance\<close>









section \<open>Post-processing of the output\<close>

text \<open>An evaluation that returns has called the stored function and filtered its output.\<close>

lemma call_result_Inr:
  assumes "result (call eng self x c eps diff) = Inr out"
  shows "\<exists>eps' d f r. validate x c eps diff = Inr (eps', d) \<and>
           self_cache (state (call eng self x c eps diff)) d = Some f \<and>
           fst (f (call_args x c eps')) = Inr r \<and> replace_nan r = Inr out \<and>
           (trace (call eng self x c eps diff) = [Invoke d] \<or>
            (\<exists>p a e. trace (call eng self x c eps diff) = [Compile p a e, Invoke d]))"
proof (cases "validate x c eps diff")
  case (Inl e)
  then show ?thesis using assms by (simp add: call_def)
next
  case (Inr pr)
  obtain eps' d where pr: "pr = (eps', d)" by (cases pr)
  have v: "validate x c eps diff = Inr (eps', d)" using Inr pr by simp
  show ?thesis
  proof (cases "self_cache self d")
    case (Some f)
    show ?thesis
      using call_hit [OF v Some, of eng] assms v Some
      by (auto split: sum.splits)
  next
    case None
    from call_miss [OF v None assms]
    obtain p a e f where m: "self_cache (state (call eng self x c eps diff)) d = Some f"
        "state (call eng self x c eps diff) = state (add_to_cache eng self d)"
        "trace (call eng self x c eps diff) = [Compile p a e, Invoke d]"
      by blast
    have "\<exists>r. fst (f (call_args x c eps')) = Inr r \<and> replace_nan r = Inr out"
      using assms v None m(1,2)
      by (auto simp add: call_def Let_def domIff split: sum.splits option.splits)
    then show ?thesis
      using v m by blast
  qed
qed

text \<open>
  C6 (as amended). When an evaluation returns, the stored function returned an array, and
  the value is that array with every NaN entry replaced by 0.0 and every other entry,
  infinities included, unchanged: the value has no NaN entry. No warning reaches the caller.
\<close>

theorem call_replaces_nan:
  assumes "result (call eng self x c eps diff) = Inr out"
  shows "\<exists>eps' d f a. validate x c eps diff = Inr (eps', d) \<and>
           self_cache (state (call eng self x c eps diff)) d = Some f \<and>
           fst (f (call_args x c eps')) = Inr (Array a) \<and>
           out = Array \<lparr>shape = shape a,
                         data = map (\<lambda>v. if v = NaN then Fin 0 else v) (data a)\<rparr> \<and>
           NaN \<notin> set (map (\<lambda>v. if v = NaN then Fin 0 else v) (data a)) \<and>
           (\<forall>w. Warning w \<notin> set (trace (call eng self x c eps diff)))"
proof -
  from call_result_Inr [OF assms]
  obtain eps' d f r where h: "validate x c eps diff = Inr (eps', d)"
      "self_cache (state (call eng self x c eps diff)) d = Some f"
      "fst (f (call_args x c eps')) = Inr r" "replace_nan r = Inr out"
      "trace (call eng self x c eps diff) = [Invoke d] \<or>
       (\<exists>p a e. trace (call eng self x c eps diff) = [Compile p a e, Invoke d])"
    by blast
  obtain a where a: "r = Array a"
    using h(4) by (cases r) (simp_all add: replace_nan_def)
  have o: "out = Array \<lparr>shape = shape a,
                         data = map (\<lambda>v. if v = NaN then Fin 0 else v) (data a)\<rparr>"
    using h(4) a by (auto simp add: replace_nan_def isnan_def)
  have n: "NaN \<notin> set (map (\<lambda>v. if v = NaN then Fin 0 else v) (data a))"
    by auto
  have w: "\<forall>w. Warning w \<notin> set (trace (call eng self x c eps diff))"
    using h(5) by auto
  show ?thesis
    using h(1,2,3) a o n w by blast
qed

theorem call_replaces_nan_witness:
  "result (call ref_engine phs2 ex_x ex_c None None) =
     Inr (Array \<lparr>shape = [3, 1], data = [Fin 0, Fin 0, Fin 0]\<rparr>) \<and>
   fst (the (self_cache (state (call ref_engine phs2 ex_x ex_c None None)) (PyTuple [0]))
          (call_args ex_x ex_c (ones 1))) =
     Inr (Array \<lparr>shape = [3, 1], data = [Fin 0, NaN, Fin 0]\<rparr>) \<and>
   (\<forall>w. Warning w \<notin> set (trace (call ref_engine phs2 ex_x ex_c None None)))"
proof -
  have r: "result (call ref_engine phs2 ex_x ex_c None None) =
     Inr (Array \<lparr>shape = [3, 1], data = [Fin 0, Fin 0, Fin 0]\<rparr>)"
    by (simp add: run_simps phs2_def ex_x_def ex_c_def)
  have f: "fst (the (self_cache (state (call ref_engine phs2 ex_x ex_c None None)) (PyTuple [0]))
          (call_args ex_x ex_c (ones 1))) =
     Inr (Array \<lparr>shape = [3, 1], data = [Fin 0, NaN, Fin 0]\<rparr>)"
    by (simp add: run_simps phs2_def ex_x_def ex_c_def)
  have w: "\<forall>w. Warning w \<notin> set (trace (call ref_engine phs2 ex_x ex_c None None))"
    using call_replaces_nan [OF r] by (elim exE conjE)
  show ?thesis
    using r f w by (intro conjI)
qed

text \<open>
  \<open>1/(EPS*R)\<close> at a point equal to the centre: the entry is \<open>inf\<close>, and it is
  returned.
\<close>

theorem call_keeps_inf_counterexample:
  "result (call ref_engine inv_rbf ex_c ex_c None None) =
     Inr (Array \<lparr>shape = [1, 1], data = [PInf]\<rparr>)"
  by (simp add: run_simps inv_rbf_def ex_c_def)


section \<open>Scalar outputs\<close>

lemma validate_shapes:
  assumes "validate x c eps diff = Inr (eps', d)"
  shows "ndim x = 2 \<and> ndim c = 2 \<and> shape eps' = [shape c ! 0] \<and>
         length (elems d) = shape x ! 1 \<and> shape c ! 1 = shape x ! 1"
proof -
  have "ndim eps' = 1 \<and> shape eps' ! 0 = shape c ! 0 \<and> ndim x = 2 \<and> ndim c = 2 \<and>
        length (elems d) = shape x ! 1 \<and> shape c ! 1 = shape x ! 1"
    using assms
    by (auto simp add: validate_def shape_at_def ndim_def
             split: sum.splits option.splits if_splits)
  then show ?thesis
    by (cases "shape eps'") (auto simp add: ndim_def)
qed

lemma call_args_first_last:
  assumes "0 < shape x ! 1"
  shows "\<exists>a rest. call_args x c e = a # rest \<and> shape a = [shape x ! 0, 1] \<and>
           last (call_args x c e) = e"
proof -
  have "[0..<shape x ! 1] = 0 # [1..<shape x ! 1]"
    using assms by (simp add: upt_rec)
  then show ?thesis
    by (simp add: call_args_def x_axes_def)
qed

lemma add_to_cache_failed:
  "result (add_to_cache eng self d) = Inl e \<Longrightarrow> state (add_to_cache eng self d) = self"
  by (auto simp add: add_to_cache_def Let_def split: sum.splits if_splits)

text \<open>
  The case that \<open>_check_lambdified_output\<close> handles: with at least one spatial
  dimension, when the function stored for the signature is a lambdified function wrapped by
  it and the lambdified function returns a scalar \<open>v\<close>, the evaluation returns the array
  of shape \<open>(N, M)\<close> filled with \<open>v\<close>, or with 0.0 when \<open>v\<close> is NaN.
\<close>

lemma scalar_broadcast:
  assumes "validate x c eps diff = Inr (eps', d)"
      and "self_cache (state (call eng self x c eps diff)) d = Some (check_lambdified_output fin)"
      and "fst (fin (call_args x c eps')) = Inr (Scalar v)"
      and "0 < shape x ! 1"
  shows "result (call eng self x c eps diff) =
           Inr (Array (full [shape x ! 0, shape c ! 0] (if v = NaN then Fin 0 else v)))"
proof -
  let ?args = "call_args x c eps'"
  let ?f = "check_lambdified_output fin"
  obtain a rest where a: "?args = a # rest" "shape a = [shape x ! 0, 1]" "last ?args = eps'"
    using call_args_first_last [OF assms(4)] by blast
  have e: "shape eps' = [shape c ! 0]"
    using validate_shapes [OF assms(1)] by simp
  have w: "fst (?f ?args) = Inr (Array (full [shape x ! 0, shape c ! 0] v))"
    using assms(3) a e
    by (cases "fin ?args") (simp add: check_lambdified_output_def shape_at_def)
  have r: "replace_nan (Array (full [shape x ! 0, shape c ! 0] v)) =
             Inr (Array (full [shape x ! 0, shape c ! 0] (if v = NaN then Fin 0 else v)))"
    by (simp add: replace_nan_def full_def isnan_def)
  have "result (call eng self x c eps diff) =
          (case fst (?f ?args) of Inl e \<Rightarrow> Inl e | Inr out \<Rightarrow> replace_nan out)"
  proof (cases "self_cache self d")
    case (Some g)
    have "state (call eng self x c eps diff) = self"
      using call_hit [OF assms(1) Some, of eng] by simp
    then have "g = ?f" using assms(2) Some by simp
    then show ?thesis
      using call_hit [OF assms(1) Some, of eng] by simp
  next
    case None
    have "self_cache (state (add_to_cache eng self d)) d = Some ?f \<and>
          (\<exists>u. result (add_to_cache eng self d) = Inr u)"
      using assms(1,2) None add_to_cache_failed [of eng self d]
      by (auto simp add: call_def Let_def domIff split: sum.splits option.splits)
    then show ?thesis
      using assms(1) None
      by (auto simp add: call_def Let_def domIff split: sum.splits option.splits)
  qed
  then show ?thesis
    using w r by simp
qed

text \<open>
  C7 (the code at the failing inputs). \<open>RBF(EPS*R**2, 'numpy')\<close> at three points and
  two centres on the line. For the signature \<open>(3,)\<close> the derivative is 0, the lambdified
  function returns a scalar and the value has shape \<open>(3,2)\<close>. For the signature
  \<open>(2,)\<close> the derivative is \<open>2*EPS\<close>: it does not depend on the radius either, but
  the lambdified function returns an array of the shape of \<open>eps\<close>, which is not a
  scalar, and the evaluation returns it with shape \<open>(2,)\<close>; the other backend returns
  shape \<open>(3,2)\<close> there. In dimension 0 the positional arguments are \<open>(eps,)\<close>, so
  \<open>args[0]\<close> is \<open>eps\<close>: for two points and three centres the value has shape
  \<open>(3,3)\<close>.
\<close>

theorem scalar_shape_failures:
  "result (call ref_engine sq_rbf ex_x ex_cc None (Some (PyTuple [3]))) =
     Inr (Array \<lparr>shape = [3, 2], data = [Fin 0, Fin 0, Fin 0, Fin 0, Fin 0, Fin 0]\<rparr>) \<and>
   result (call ref_engine sq_rbf ex_x ex_cc None (Some (PyTuple [2]))) =
     Inr (Array \<lparr>shape = [2], data = [Fin 2, Fin 2]\<rparr>) \<and>
   result (call ref_engine (sq_rbf\<lparr>self_package := ''cython''\<rparr>) ex_x ex_cc None
             (Some (PyTuple [2]))) =
     Inr (Array \<lparr>shape = [3, 2], data = [Fin 2, Fin 2, Fin 2, Fin 2, Fin 2, Fin 2]\<rparr>) \<and>
   result (call ref_engine sq_rbf ex_x0 ex_c0 None None) =
     Inr (Array \<lparr>shape = [3, 3],
                  data = [Fin 0, Fin 0, Fin 0, Fin 0, Fin 0, Fin 0, Fin 0, Fin 0, Fin 0]\<rparr>)"
proof -
  have a: "result (call ref_engine sq_rbf ex_x ex_cc None (Some (PyTuple [3]))) =
     Inr (Array \<lparr>shape = [3, 2], data = [Fin 0, Fin 0, Fin 0, Fin 0, Fin 0, Fin 0]\<rparr>)"
    by (simp add: run_simps sq_rbf_def ex_x_def ex_cc_def)
  have b: "result (call ref_engine sq_rbf ex_x ex_cc None (Some (PyTuple [2]))) =
     Inr (Array \<lparr>shape = [2], data = [Fin 2, Fin 2]\<rparr>)"
    by (simp add: run_simps sq_rbf_def ex_x_def ex_cc_def)
  have c: "result (call ref_engine (sq_rbf\<lparr>self_package := ''cython''\<rparr>) ex_x ex_cc None
             (Some (PyTuple [2]))) =
     Inr (Array \<lparr>shape = [3, 2], data = [Fin 2, Fin 2, Fin 2, Fin 2, Fin 2, Fin 2]\<rparr>)"
    by (simp add: run_simps sq_rbf_def ex_x_def ex_cc_def)
  have d: "result (call ref_engine sq_rbf ex_x0 ex_c0 None None) =
     Inr (Array \<lparr>shape = [3, 3],
                  data = [Fin 0, Fin 0, Fin 0, Fin 0, Fin 0, Fin 0, Fin 0, Fin 0, Fin 0]\<rparr>)"
    by (simp add: run_simps sq_rbf_def ex_x0_def ex_c0_def)
  show ?thesis
    using a b c d by (intro conjI)
qed

section \<open>A concrete evaluation\<close>

text \<open>
  C8. \<open>RBF(R)\<close> stores \<open>EPS*R\<close>; evaluated at the points
  \<open>[[-1],[0],[1]]\<close> with the centre \<open>[[0]]\<close>, the shape parameter \<open>[2.0]\<close>
  and the signature \<open>(0,)\<close>, given or defaulted, it returns \<open>[[2.0],[0.0],[2.0]]\<close>,
  with either backend of the reference library.
\<close>

theorem phs1_scenario:
  "init ref_engine (Var Sym_R) ''cython'' None = Inr (phs1 ''cython'') \<and>
   result (call ref_engine (phs1 ''cython'') ex_x ex_c (Some ex_eps) (Some (PyTuple [0]))) =
     Inr (Array \<lparr>shape = [3, 1], data = [Fin 2, Fin 0, Fin 2]\<rparr>) \<and>
   result (call ref_engine (phs1 ''cython'') ex_x ex_c (Some ex_eps) None) =
     Inr (Array \<lparr>shape = [3, 1], data = [Fin 2, Fin 0, Fin 2]\<rparr>) \<and>
   result (call ref_engine (phs1 ''numpy'') ex_x ex_c (Some ex_eps) (Some (PyTuple [0]))) =
     Inr (Array \<lparr>shape = [3, 1], data = [Fin 2, Fin 0, Fin 2]\<rparr>)"
proof -
  have i: "init ref_engine (Var Sym_R) ''cython'' None = Inr (phs1 ''cython'')"
    by (simp add: init_def set_package_def set_tol_def clear_cache_def phs1_def
          ref_engine_def ref_has_def ref_subs_def)
  have a: "result (call ref_engine (phs1 ''cython'') ex_x ex_c (Some ex_eps)
                     (Some (PyTuple [0]))) =
             Inr (Array \<lparr>shape = [3, 1], data = [Fin 2, Fin 0, Fin 2]\<rparr>)"
    by (simp add: run_simps phs1_def ex_x_def ex_c_def ex_eps_def)
  have b: "result (call ref_engine (phs1 ''cython'') ex_x ex_c (Some ex_eps) None) =
             Inr (Array \<lparr>shape = [3, 1], data = [Fin 2, Fin 0, Fin 2]\<rparr>)"
    by (simp add: run_simps phs1_def ex_x_def ex_c_def ex_eps_def)
  have c: "result (call ref_engine (phs1 ''numpy'') ex_x ex_c (Some ex_eps)
                     (Some (PyTuple [0]))) =
             Inr (Array \<lparr>shape = [3, 1], data = [Fin 2, Fin 0, Fin 2]\<rparr>)"
    by (simp add: run_simps phs1_def ex_x_def ex_c_def ex_eps_def)
  show ?thesis
    using i a b c by (intro conjI)
qed

section \<open>Negative derivative orders\<close>

lemma diff_loop_error:
  "diff_loop eng e ps = Inl err \<Longrightarrow> \<exists>e' vs. sym_diff eng e' vs = Inl err"
  by (induction eng e ps rule: diff_loop.induct) (auto split: if_splits sum.splits)

lemma diff_loop_total:
  assumes "\<And>e vs. \<exists>e'. sym_diff eng e vs = Inr e'"
  shows "\<exists>e'. diff_loop eng e ps = Inr e'"
proof (induction ps arbitrary: e)
  case Nil
  then show ?case by simp
next
  case (Cons p ps)
  obtain xi order where p: "p = (xi, order)" by (cases p)
  obtain e' where e': "sym_diff eng e (replicate (nat order) xi) = Inr e'"
    using assms by blast
  show ?case
    using p e' Cons.IH by simp
qed

text \<open>
  C9 (as amended). \<open>add_to_cache\<close> does not look at the sign of an order. For a
  negative order the tuple \<open>(xi,)*order\<close> is empty, so the library's \<open>diff\<close> is
  called without a variable and the loop goes on with what it returns; and the loop fails
  only with an error that a call of the library's \<open>diff\<close> raised.
\<close>

theorem negative_order_delegated:
  "(order < 0 \<longrightarrow>
      diff_loop eng e ((xi, order) # rest) =
        (case sym_diff eng e [] of
           Inl err \<Rightarrow> Inl err
         | Inr e' \<Rightarrow> diff_loop eng e' rest)) \<and>
   (diff_loop eng e ps = Inl err \<longrightarrow> (\<exists>e' vs. sym_diff eng e' vs = Inl err))"
  using diff_loop_error [of eng e ps err] by simp

theorem negative_order_delegated_witness:
  "(- 1 :: int) < 0 \<and>
   diff_loop ref_engine (Mul (Var (Sym_x 0)) (Var (Sym_c 0))) [(Sym_x 0, - 1)] =
     Inl ValueError \<and>
   (\<exists>e' vs. sym_diff ref_engine e' vs = Inl ValueError) \<and>
   diff_loop ref_engine (IntPow (Var (Sym_x 0)) 2) [(Sym_x 0, - 1)] =
     (case sym_diff ref_engine (IntPow (Var (Sym_x 0)) 2) [] of
        Inl err \<Rightarrow> Inl err
      | Inr e' \<Rightarrow> diff_loop ref_engine e' []) \<and>
   sym_diff ref_engine (IntPow (Var (Sym_x 0)) 2) [] = Inr (Mul (Num 2) (Var (Sym_x 0)))"
proof -
  have n: "(- 1 :: int) < 0"
    by simp
  have f: "diff_loop ref_engine (Mul (Var (Sym_x 0)) (Var (Sym_c 0))) [(Sym_x 0, - 1)] =
             Inl ValueError"
    by (simp add: ref_engine_def ref_diff_def)
  have d: "sym_diff ref_engine (IntPow (Var (Sym_x 0)) 2) [] =
             Inr (Mul (Num 2) (Var (Sym_x 0)))"
    by (simp add: ref_engine_def ref_diff_def)
  have a: "\<exists>e' vs. sym_diff ref_engine e' vs = Inl ValueError"
    using negative_order_delegated
            [of "- 1" ref_engine "Mul (Var (Sym_x 0)) (Var (Sym_c 0))" "Sym_x 0" "[]"
               "[(Sym_x 0, - 1)]" ValueError] f
    by blast
  have b: "diff_loop ref_engine (IntPow (Var (Sym_x 0)) 2) [(Sym_x 0, - 1)] =
     (case sym_diff ref_engine (IntPow (Var (Sym_x 0)) 2) [] of
        Inl err \<Rightarrow> Inl err
      | Inr e' \<Rightarrow> diff_loop ref_engine e' [])"
    using negative_order_delegated
            [of "- 1" ref_engine "IntPow (Var (Sym_x 0)) 2" "Sym_x 0" "[]" "[]" ValueError] n
    by blast
  show ?thesis
    using n f a b d by (intro conjI)
qed

text \<open>
  \<open>EPS*R**2\<close> in the plane with the signature \<open>(3,-1)\<close>: the third derivative
  along the first axis is 0, the library returns 0 for \<open>diff()\<close> of a number, and the
  evaluation returns an array of zeros.
\<close>

theorem negative_order_counterexample:
  "derive ref_engine sq_rbf [3, - 1] = Inr (Num 0) \<and>
   result (add_to_cache ref_engine sq_rbf (PyTuple [3, - 1])) = Inr () \<and>
   result (call ref_engine sq_rbf ex_x2 ex_c2 None (Some (PyTuple [3, - 1]))) =
     Inr (Array \<lparr>shape = [1, 1], data = [Fin 0]\<rparr>)"
  by (simp add: run_simps sq_rbf_def ex_x2_def ex_c2_def)

end
